theory Spec2Isabelle
  imports Main
begin

section \<open>The self-upgrading client: data model\<close>

text \<open>
  The program keeps its own source file in step with a copy pulled from a git remote.
  Everything it does is I/O, so the model threads a \<open>world\<close> (the files on disk and
  the trace of observable effects) through every function, and takes what the
  environment decides (does a read fail, does the pull succeed, what does the mail
  server answer) from a record \<open>io\<close> that is fixed for the duration of one call or
  one loop iteration.  The library functions the program calls (SHA-256, the Python
  parser, the JSON codec) are the fields of a record \<open>lib\<close>: they are pure functions
  of their input and are not defined by this repository.
\<close>

type_synonym path = string
type_synonym bytes = string

text \<open>Python values as \<open>json.load\<close> produces them; \<open>PyNone\<close> is Python's \<open>None\<close>.\<close>

datatype pyval =
    PyNone
  | PyBool bool
  | PyInt int
  | PyFloat int int
  | PyStr string
  | PyList "pyval list"
  | PyDict "(string \<times> pyval) list"

datatype level = INFO | ERROR | CRITICAL

datatype event =
    Log level string
  | Sleep nat
  | SmtpSend string string
  | Copy2 path path
  | LoopStop
  | Execv path

datatype io_error = FileNotFoundError | OSError

datatype parse_result = ParseOk | SyntaxError | ParseOtherException

datatype json_error = JSONDecodeError | JsonOtherException

text \<open>
  What one attempt of \<open>send_email\<close> runs into: the message is handed over and the
  connection closed; the login is refused; some other exception is raised before
  \<open>server.send_message\<close> is reached (building the message, connecting, STARTTLS,
  login); or some other exception is raised by \<open>server.send_message\<close> or after it.
\<close>

datatype smtp_result =
    Sent
  | SMTPAuthenticationError
  | ExceptionBeforeSend
  | ExceptionInSend

datatype pull_error = GitCommandError | PullOtherException

datatype pull_result = Pulled "bytes option" | UpToDate | PullRaises pull_error

datatype wfault = NoFault | OpenFails | WriteFails nat

record lib =
  sha256_hexdigest :: "bytes \<Rightarrow> string"
  ast_parse :: "bytes \<Rightarrow> parse_result"
  json_load :: "bytes \<Rightarrow> json_error + pyval"
  json_dump :: "pyval \<Rightarrow> bytes"

record io =
  pull :: pull_result
  read_fault :: "path \<Rightarrow> bool"
  write_fault :: "path \<Rightarrow> wfault"
  smtp :: "string \<Rightarrow> nat \<Rightarrow> smtp_result"
  execv_fails :: bool

record world =
  files :: "path \<rightharpoonup> bytes"
  trace :: "event list"

text \<open>The two module-level variables the main loop reads and writes.\<close>

record mem =
  current_checksum :: "string option"
  failed_checksum :: pyval

subsection \<open>Constants of the module\<close>

definition CHECK_INTERVAL :: nat where
  "CHECK_INTERVAL = 60"

definition FAILED_UPDATE_FILE :: path where
  "FAILED_UPDATE_FILE = ''failed_update.json''"

definition current_file :: path where
  "current_file = ''self_upgrading_client.py''"

definition new_file :: path where
  "new_file = ''repo/self_upgrading_client.py''"

definition backup :: path where
  "backup = ''self_upgrading_client_backup.py''"

subsection \<open>Primitive effects\<close>

definition log :: "level \<Rightarrow> string \<Rightarrow> world \<Rightarrow> world" where
  "log lv msg w = w\<lparr>trace := trace w @ [Log lv msg]\<rparr>"

definition emit :: "event \<Rightarrow> world \<Rightarrow> world" where
  "emit e w = w\<lparr>trace := trace w @ [e]\<rparr>"

definition sleep :: "nat \<Rightarrow> world \<Rightarrow> world" where
  "sleep n w = emit (Sleep n) w"

definition path_exists :: "world \<Rightarrow> path \<Rightarrow> bool" where
  "path_exists w p = (files w p \<noteq> None)"

text \<open>
  \<open>open(p, "r")\<close> or \<open>open(p, "rb")\<close> followed by \<open>f.read()\<close>: a missing file raises
  \<open>FileNotFoundError\<close>, a file the environment refuses to deliver raises some other
  \<open>OSError\<close>, otherwise the whole content is returned.
\<close>

definition open_read :: "io \<Rightarrow> world \<Rightarrow> path \<Rightarrow> io_error + bytes" where
  "open_read env w p =
     (case files w p of
        None \<Rightarrow> Inl FileNotFoundError
      | Some content \<Rightarrow> if read_fault env p then Inl OSError else Inr content)"

text \<open>
  \<open>open(p, "w")\<close>, writing \<open>content\<close>, closing.  Mode \<open>"w"\<close> truncates the file when
  it is opened: a failure of the open leaves the file as it was, a failure after the
  open (disk full, error at flush or close) leaves the first \<open>n\<close> bytes of the new
  content, \<open>n = 0\<close> being the empty file.
\<close>

definition write_file :: "io \<Rightarrow> world \<Rightarrow> path \<Rightarrow> bytes \<Rightarrow> (io_error + unit) \<times> world" where
  "write_file env w p content =
     (case write_fault env p of
        NoFault \<Rightarrow> (Inr (), w\<lparr>files := (files w)(p \<mapsto> content)\<rparr>)
      | OpenFails \<Rightarrow> (Inl OSError, w)
      | WriteFails n \<Rightarrow> (Inl OSError, w\<lparr>files := (files w)(p \<mapsto> take n content)\<rparr>))"

text \<open>
  \<open>shutil.copy2(src, dst)\<close>: the source is opened first, then the destination is
  opened for writing and filled.  File metadata is not part of the model.
\<close>

definition copy2 :: "io \<Rightarrow> world \<Rightarrow> path \<Rightarrow> path \<Rightarrow> (io_error + unit) \<times> world" where
  "copy2 env w src dst =
     (let w1 = emit (Copy2 src dst) w in
      if src = dst then (Inl OSError, w1)
      else case open_read env w1 src of
             Inl e \<Rightarrow> (Inl e, w1)
           | Inr content \<Rightarrow> write_file env w1 dst content)"

section \<open>The functions of the module\<close>

text \<open>
  \<open>get_checksum\<close> (lines 60-69).  The result is a \<open>str\<close> or \<open>None\<close>.  The text of
  the caught exception, which the source appends to some log lines, is left out of
  the logged message.
\<close>

definition get_checksum :: "lib \<Rightarrow> io \<Rightarrow> world \<Rightarrow> path \<Rightarrow> string option \<times> world" where
  "get_checksum l env w file_path =
     (case open_read env w file_path of
        Inr content \<Rightarrow> (Some (sha256_hexdigest l content), w)
      | Inl FileNotFoundError \<Rightarrow> (None, log ERROR (''File not found: '' @ file_path) w)
      | Inl OSError \<Rightarrow> (None, log ERROR (''Error reading file '' @ file_path) w))"

text \<open>
  \<open>is_valid_python\<close> (lines 71-82).  Reading in text mode and parsing happen inside
  the \<open>try\<close>; a decoding error of the read is one of the other exceptions of
  \<open>ast_parse\<close>.
\<close>

definition is_valid_python :: "lib \<Rightarrow> io \<Rightarrow> world \<Rightarrow> path \<Rightarrow> bool \<times> world" where
  "is_valid_python l env w file_path =
     (case open_read env w file_path of
        Inl e \<Rightarrow> (False, log ERROR (''Error checking '' @ file_path) w)
      | Inr source \<Rightarrow>
          (case ast_parse l source of
             ParseOk \<Rightarrow> (True, log INFO (''Syntax check passed for '' @ file_path) w)
           | SyntaxError \<Rightarrow> (False, log ERROR (''Invalid Python syntax in '' @ file_path) w)
           | ParseOtherException \<Rightarrow> (False, log ERROR (''Error checking '' @ file_path) w)))"

text \<open>
  \<open>load_failed_update\<close> (lines 84-96).  \<open>data.get("checksum")\<close> is the value under
  the key, or \<open>None\<close> when the key is missing; on anything but a dict the attribute
  lookup raises and the last handler returns \<open>None\<close>.
\<close>

definition load_failed_update :: "lib \<Rightarrow> io \<Rightarrow> world \<Rightarrow> pyval \<times> world" where
  "load_failed_update l env w =
     (if path_exists w FAILED_UPDATE_FILE then
        (case open_read env w FAILED_UPDATE_FILE of
           Inl e \<Rightarrow> (PyNone, log ERROR ''Error loading failed update'' w)
         | Inr content \<Rightarrow>
             (case json_load l content of
                Inl JSONDecodeError \<Rightarrow>
                  (PyNone, log ERROR (''Invalid JSON in '' @ FAILED_UPDATE_FILE) w)
              | Inl JsonOtherException \<Rightarrow> (PyNone, log ERROR ''Error loading failed update'' w)
              | Inr (PyDict kvs) \<Rightarrow>
                  (case map_of kvs ''checksum'' of None \<Rightarrow> (PyNone, w) | Some v \<Rightarrow> (v, w))
              | Inr _ \<Rightarrow> (PyNone, log ERROR ''Error loading failed update'' w)))
      else (PyNone, w))"

text \<open>\<open>save_failed_update\<close> (lines 98-104).  Nothing is returned and nothing is raised.\<close>

definition save_failed_update :: "lib \<Rightarrow> io \<Rightarrow> world \<Rightarrow> string \<Rightarrow> world" where
  "save_failed_update l env w checksum =
     (case write_file env w FAILED_UPDATE_FILE
             (json_dump l (PyDict [(''checksum'', PyStr checksum)])) of
        (Inr u, w1) \<Rightarrow> log INFO (''Marked update '' @ checksum @ '' as failed'') w1
      | (Inl e, w1) \<Rightarrow> log ERROR ''Error saving failed update'' w1)"

text \<open>
  \<open>send_email\<close> (lines 38-58): the loop over \<open>range(retries)\<close>.  A delivered message
  returns, an authentication error breaks out of the loop, any other exception
  sleeps (except after the last attempt) and tries again; leaving the loop by
  \<open>break\<close> or by exhaustion logs the final error.  The event \<open>SmtpSend\<close> is the
  call of \<open>server.send_message\<close> (line 48), which an attempt reaches only once
  the connection, STARTTLS and the login have succeeded.  The attempt counter of the
  log line is left out of the message.
\<close>

fun send_attempts ::
  "io \<Rightarrow> string \<Rightarrow> string \<Rightarrow> nat \<Rightarrow> nat \<Rightarrow> nat list \<Rightarrow> world \<Rightarrow> world" where
  "send_attempts env subject body retries delay [] w =
     log ERROR ''All email attempts failed.'' w"
| "send_attempts env subject body retries delay (attempt # rest) w =
     (case smtp env subject attempt of
        Sent \<Rightarrow> log INFO (''Email sent: '' @ subject) (emit (SmtpSend subject body) w)
      | SMTPAuthenticationError \<Rightarrow>
          log ERROR ''All email attempts failed.''
            (log ERROR ''Email authentication failed. Check SMTP_USER and SMTP_PASS.'' w)
      | ExceptionBeforeSend \<Rightarrow>
          (let w1 = log ERROR ''Failed to send email'' w;
               w2 = (if attempt + 1 < retries then sleep delay w1 else w1)
           in send_attempts env subject body retries delay rest w2)
      | ExceptionInSend \<Rightarrow>
          (let w1 = log ERROR ''Failed to send email'' (emit (SmtpSend subject body) w);
               w2 = (if attempt + 1 < retries then sleep delay w1 else w1)
           in send_attempts env subject body retries delay rest w2))"

definition send_email :: "io \<Rightarrow> string \<Rightarrow> string \<Rightarrow> world \<Rightarrow> world" where
  "send_email env subject body w = send_attempts env subject body 3 5 [0..<3] w"

section \<open>The main loop\<close>

text \<open>
  The connection to the broker and the clone of the repository (lines 112-141) come
  before the loop and touch none of the files the loop works on; they are not part
  of the model.  \<open>client.loop_stop()\<close> is the event \<open>LoopStop\<close>.
\<close>

text \<open>
  How one iteration of \<open>while True\<close> ends.  \<open>Restarted\<close> is \<open>os.execv\<close> replacing
  the process; every other outcome sleeps and goes round again.
\<close>

datatype stage = AtPull | AtBackup | AtCopy | AtExec

datatype outcome =
    GitPullFailed
  | UnexpectedError stage
  | CandidateNotFound
  | NoChange
  | Skipped
  | Rejected
  | Restarted

fun truthy :: "string option \<Rightarrow> bool" where
  "truthy None = False"
| "truthy (Some s) = (s \<noteq> [])"

text \<open>The handler \<open>except Exception\<close> (lines 185-186) and the sleep of line 187.\<close>

definition unexpected_error :: "stage \<Rightarrow> mem \<Rightarrow> world \<Rightarrow> outcome \<times> mem \<times> world" where
  "unexpected_error st m w =
     (UnexpectedError st, m, sleep CHECK_INTERVAL (log ERROR ''Unexpected error'' w))"

text \<open>Lines 172-179: backup, overwrite, restart.\<close>

definition apply_update :: "io \<Rightarrow> mem \<Rightarrow> world \<Rightarrow> outcome \<times> mem \<times> world" where
  "apply_update env m w =
     (case (if path_exists w current_file then copy2 env w current_file backup
            else (Inr (), w)) of
        (Inl e, w1) \<Rightarrow> unexpected_error AtBackup m w1
      | (Inr u, w1) \<Rightarrow>
          (case copy2 env w1 new_file current_file of
             (Inl e, w2) \<Rightarrow> unexpected_error AtCopy m w2
           | (Inr u, w2) \<Rightarrow>
               (let w3 = emit LoopStop (log INFO ''Restarting with new version...'' w2);
                    w4 = emit (Execv current_file) w3
                in if execv_fails env then unexpected_error AtExec m w4
                   else (Restarted, m, w4))))"

text \<open>Lines 157-179: the branch taken when the comparison of line 156 succeeds.\<close>

definition update_detected ::
  "lib \<Rightarrow> io \<Rightarrow> mem \<Rightarrow> world \<Rightarrow> string \<Rightarrow> outcome \<times> mem \<times> world" where
  "update_detected l env m w new_checksum =
     (if failed_checksum m = PyStr new_checksum then
        (Skipped, m,
         sleep CHECK_INTERVAL
           (log INFO (''Skipping previously failed update '' @ new_checksum) w))
      else
        (let w1 = log INFO ''Update detected!'' w;
             w2 = send_email env ''Client Update Started''
                    ''The client is updating to a new version.'' w1
         in case is_valid_python l env w2 new_file of
              (False, w3) \<Rightarrow>
                (let w4 = log ERROR ''New version has invalid syntax. Aborting update.'' w3;
                     w5 = send_email env ''Client Update Failed''
                            ''New version has invalid syntax. Update aborted.'' w4;
                     w6 = save_failed_update l env w5 new_checksum
                 in (Rejected, m, sleep CHECK_INTERVAL w6))
            | (True, w3) \<Rightarrow> apply_update env m w3))"

text \<open>Lines 149-182: what follows a pull that returned.\<close>

definition after_pull :: "lib \<Rightarrow> io \<Rightarrow> mem \<Rightarrow> world \<Rightarrow> outcome \<times> mem \<times> world" where
  "after_pull l env m w =
     (if \<not> path_exists w new_file then
        (CandidateNotFound, m,
         sleep CHECK_INTERVAL
           (log ERROR (''Update file not found in repo: '' @ new_file) w))
      else
        (case get_checksum l env w new_file of
           (new_checksum, w1) \<Rightarrow>
             (case (new_checksum,
                    truthy new_checksum \<and> truthy (current_checksum m)
                      \<and> new_checksum \<noteq> current_checksum m) of
                (Some nc, True) \<Rightarrow> update_detected l env m w1 nc
              | _ \<Rightarrow>
                  (case get_checksum l env (log INFO ''No update needed.'' w1) current_file of
                     (c, w2) \<Rightarrow>
                       (NoChange, m\<lparr>current_checksum := c\<rparr>, sleep CHECK_INTERVAL w2)))))"

text \<open>
  \<open>repo.remote().pull()\<close> (line 148): it raises, or it returns having left the
  candidate file as it was or having replaced it (\<open>Pulled None\<close>: the file is gone
  from the working tree).
\<close>

definition remote_pull :: "io \<Rightarrow> world \<Rightarrow> pull_error + world" where
  "remote_pull env w =
     (case pull env of
        PullRaises e \<Rightarrow> Inl e
      | UpToDate \<Rightarrow> Inr w
      | Pulled c \<Rightarrow> Inr (w\<lparr>files := (files w)(new_file := c)\<rparr>))"

text \<open>One iteration (lines 147-187).\<close>

definition tick :: "lib \<Rightarrow> io \<Rightarrow> mem \<Rightarrow> world \<Rightarrow> outcome \<times> mem \<times> world" where
  "tick l env m w =
     (case remote_pull env w of
        Inl GitCommandError \<Rightarrow>
          (GitPullFailed, m, sleep CHECK_INTERVAL (log ERROR ''Git pull failed'' w))
      | Inl PullOtherException \<Rightarrow> unexpected_error AtPull m w
      | Inr w1 \<Rightarrow> after_pull l env m w1)"

text \<open>Lines 142-144: the two variables as the loop first sees them.\<close>

definition startup :: "lib \<Rightarrow> io \<Rightarrow> world \<Rightarrow> mem \<times> world" where
  "startup l env w =
     (case get_checksum l env w current_file of
        (c, w1) \<Rightarrow>
          (case load_failed_update l env w1 of
             (f, w2) \<Rightarrow> (\<lparr>current_checksum = c, failed_checksum = f\<rparr>, w2)))"

text \<open>
  The loop itself, run for as many iterations as there are environments in the list;
  it stops early when the process is replaced.
\<close>

fun main_loop :: "lib \<Rightarrow> io list \<Rightarrow> mem \<Rightarrow> world \<Rightarrow> outcome list \<times> mem \<times> world" where
  "main_loop l [] m w = ([], m, w)"
| "main_loop l (env # envs) m w =
     (case tick l env m w of
        (Restarted, m1, w1) \<Rightarrow> ([Restarted], m1, w1)
      | (out, m1, w1) \<Rightarrow>
          (case main_loop l envs m1 w1 of
             (outs, m2, w2) \<Rightarrow> (out # outs, m2, w2)))"

text \<open>The notifications among the events of a trace: the calls of \<open>server.send_message\<close>.\<close>

fun is_smtp_send :: "event \<Rightarrow> bool" where
  "is_smtp_send (SmtpSend subject body) = True"
| "is_smtp_send e = False"

section \<open>A concrete environment\<close>

text \<open>
  Stand-ins for the library functions and an environment without faults, on which
  the theorems below are instantiated.  The digest prefixes the content, the parser
  rejects one particular text, and the JSON codec writes and reads the one-field
  record of the ledger.
\<close>

definition example_prefix :: string where
  "example_prefix = ''{'' @ [CHR 0x22] @ ''checksum'' @ [CHR 0x22] @ '': '' @ [CHR 0x22]"

definition example_suffix :: string where
  "example_suffix = [CHR 0x22] @ ''}''"

fun strip_prefix :: "string \<Rightarrow> string \<Rightarrow> string option" where
  "strip_prefix [] s = Some s"
| "strip_prefix (p # ps) [] = None"
| "strip_prefix (p # ps) (c # cs) = (if p = c then strip_prefix ps cs else None)"

definition example_json_dump :: "pyval \<Rightarrow> bytes" where
  "example_json_dump v =
     (case v of
        PyDict [(k, PyStr s)] \<Rightarrow> example_prefix @ s @ example_suffix
      | _ \<Rightarrow> ''null'')"

definition example_json_load :: "bytes \<Rightarrow> json_error + pyval" where
  "example_json_load b =
     (case strip_prefix example_prefix b of
        None \<Rightarrow> Inl JSONDecodeError
      | Some r \<Rightarrow>
          (case strip_prefix (rev example_suffix) (rev r) of
             None \<Rightarrow> Inl JSONDecodeError
           | Some t \<Rightarrow> Inr (PyDict [(''checksum'', PyStr (rev t))])))"

definition example_lib :: lib where
  "example_lib =
     \<lparr>sha256_hexdigest = (\<lambda>b. ''sha256:'' @ b),
      ast_parse = (\<lambda>b. if b = ''print(1'' then SyntaxError else ParseOk),
      json_load = example_json_load,
      json_dump = example_json_dump\<rparr>"

definition quiet_io :: io where
  "quiet_io =
     \<lparr>pull = UpToDate, read_fault = (\<lambda>p. False), write_fault = (\<lambda>p. NoFault),
      smtp = (\<lambda>subject attempt. Sent), execv_fails = False\<rparr>"

text \<open>A disk holding the running file and the candidate, and an empty trace.\<close>

definition disk :: "bytes \<Rightarrow> bytes \<Rightarrow> world" where
  "disk running candidate =
     \<lparr>files = [current_file \<mapsto> running, new_file \<mapsto> candidate], trace = []\<rparr>"

section \<open>Basic facts about the primitives\<close>

lemma paths_distinct:
  "current_file \<noteq> new_file" "current_file \<noteq> backup" "new_file \<noteq> backup"
  "FAILED_UPDATE_FILE \<noteq> current_file" "FAILED_UPDATE_FILE \<noteq> new_file"
  "FAILED_UPDATE_FILE \<noteq> backup"
  by (simp_all add: current_file_def new_file_def backup_def FAILED_UPDATE_FILE_def)

lemma files_log [simp]: "files (log lv msg w) = files w"
  by (simp add: log_def)

lemma trace_log [simp]: "trace (log lv msg w) = trace w @ [Log lv msg]"
  by (simp add: log_def)

lemma files_emit [simp]: "files (emit e w) = files w"
  by (simp add: emit_def)

lemma trace_emit [simp]: "trace (emit e w) = trace w @ [e]"
  by (simp add: emit_def)

lemma files_sleep [simp]: "files (sleep n w) = files w"
  by (simp add: sleep_def)

lemma trace_sleep [simp]: "trace (sleep n w) = trace w @ [Sleep n]"
  by (simp add: sleep_def)

lemma open_read_cong: "files w1 = files w2 \<Longrightarrow> open_read env w1 p = open_read env w2 p"
  by (simp add: open_read_def)

lemma open_read_log [simp]: "open_read env (log lv msg w) p = open_read env w p"
  by (simp add: open_read_def)

lemma open_read_emit [simp]: "open_read env (emit e w) p = open_read env w p"
  by (simp add: open_read_def)

lemma files_send_attempts [simp]:
  "files (send_attempts env subject body retries delay as w) = files w"
  by (induction as arbitrary: w) (simp_all add: Let_def split: smtp_result.splits)

lemma files_send_email [simp]: "files (send_email env subject body w) = files w"
  by (simp add: send_email_def)



lemma files_is_valid_python [simp]: "files (snd (is_valid_python l env w p)) = files w"
  by (simp add: is_valid_python_def split: sum.splits parse_result.splits)

lemma fst_is_valid_python:
  "fst (is_valid_python l env w p) =
     (case open_read env w p of Inl e \<Rightarrow> False | Inr c \<Rightarrow> ast_parse l c = ParseOk)"
  by (simp add: is_valid_python_def split: sum.splits parse_result.splits)

lemma files_load_failed_update [simp]: "files (snd (load_failed_update l env w)) = files w"
  by (simp add: load_failed_update_def split: sum.splits json_error.splits pyval.splits option.splits)

lemma apply_update_mem: "apply_update env m w = (out, m', w') \<Longrightarrow> m' = m"
  by (auto simp: apply_update_def unexpected_error_def Let_def
      split: if_splits prod.splits sum.splits)

lemma apply_update_outcomes:
  "fst (apply_update env m w)
     \<in> {Restarted, UnexpectedError AtBackup, UnexpectedError AtCopy, UnexpectedError AtExec}"
  by (auto simp: apply_update_def unexpected_error_def Let_def
      split: if_splits prod.splits sum.splits)

lemma copy2_Inr:
  "copy2 env w src dst = (Inr u, w') \<Longrightarrow>
     \<exists>c. files w src = Some c \<and> files w' = (files w)(dst \<mapsto> c)
       \<and> trace w' = trace w @ [Copy2 src dst]"
  by (auto simp: copy2_def write_file_def open_read_def Let_def
      split: if_splits sum.splits wfault.splits option.splits)

lemma copy2_files_other:
  "copy2 env w src dst = (r, w') \<Longrightarrow> p \<noteq> dst \<Longrightarrow> files w' p = files w p"
  by (auto simp: copy2_def write_file_def Let_def
      split: if_splits sum.splits wfault.splits)

lemma copy2_trace:
  "copy2 env w src dst = (r, w') \<Longrightarrow> trace w' = trace w @ [Copy2 src dst]"
  by (auto simp: copy2_def write_file_def Let_def
      split: if_splits sum.splits wfault.splits)

lemma apply_update_Restarted:
  assumes "apply_update env m w = (Restarted, m', w')"
  shows "\<exists>c. files w new_file = Some c \<and> files w' current_file = Some c
           \<and> files w' new_file = Some c"
    and "files w current_file = Some r \<Longrightarrow> files w' backup = Some r"
    and "files w current_file = Some r \<Longrightarrow>
           trace w' = trace w @ [Copy2 current_file backup, Copy2 new_file current_file,
              Log INFO ''Restarting with new version...'', LoopStop, Execv current_file]"
    and "files w current_file = None \<Longrightarrow> files w' backup = files w backup"
    and "p \<noteq> backup \<Longrightarrow> p \<noteq> current_file \<Longrightarrow> files w' p = files w p"
  using assms paths_distinct
  by (auto simp: apply_update_def unexpected_error_def Let_def path_exists_def
      split: if_splits prod.splits sum.splits dest!: copy2_Inr)

lemma apply_update_AtBackup:
  assumes "apply_update env m w = (UnexpectedError AtBackup, m', w')"
  shows "p \<noteq> backup \<Longrightarrow> files w' p = files w p"
    and "trace w' = trace w @ [Copy2 current_file backup, Log ERROR ''Unexpected error'',
            Sleep CHECK_INTERVAL]"
  using assms
  by (auto simp: apply_update_def unexpected_error_def Let_def
      split: if_splits prod.splits sum.splits dest: copy2_files_other copy2_trace)

lemma apply_update_AtCopy:
  assumes "apply_update env m w = (UnexpectedError AtCopy, m', w')"
  shows "p \<noteq> backup \<Longrightarrow> p \<noteq> current_file \<Longrightarrow> files w' p = files w p"
    and "\<exists>pre. trace w' = pre @ [Copy2 new_file current_file, Log ERROR ''Unexpected error'',
            Sleep CHECK_INTERVAL]"
proof -
  obtain r1 w1 e w2 where
    c1: "(if path_exists w current_file then copy2 env w current_file backup else (Inr (), w))
          = (r1, w1)"
    and c2: "copy2 env w1 new_file current_file = (Inl e, w2)"
    and w': "w' = sleep CHECK_INTERVAL (log ERROR ''Unexpected error'' w2)"
    using assms
    by (auto simp: apply_update_def unexpected_error_def Let_def
        split: if_splits prod.splits sum.splits)
  have f1: "q \<noteq> backup \<Longrightarrow> files w1 q = files w q" for q
    using c1 by (auto split: if_splits dest: copy2_files_other)
  have f2: "q \<noteq> current_file \<Longrightarrow> files w2 q = files w1 q" for q
    using c2 by (rule copy2_files_other)
  show "p \<noteq> backup \<Longrightarrow> p \<noteq> current_file \<Longrightarrow> files w' p = files w p"
    by (simp add: w' f1 f2)
  show "\<exists>pre. trace w' = pre @ [Copy2 new_file current_file, Log ERROR ''Unexpected error'',
            Sleep CHECK_INTERVAL]"
    using copy2_trace [OF c2] by (simp add: w')
qed

lemma get_checksum_readable:
  "files w p = Some c \<Longrightarrow> \<not> read_fault env p \<Longrightarrow>
     get_checksum l env w p = (Some (sha256_hexdigest l c), w)"
  by (simp add: get_checksum_def open_read_def)

lemma get_checksum_Some:
  "get_checksum l env w p = (Some h, w') \<Longrightarrow>
     \<exists>c. files w p = Some c \<and> \<not> read_fault env p \<and> h = sha256_hexdigest l c \<and> w' = w"
  by (auto simp: get_checksum_def open_read_def
      split: option.splits if_splits io_error.splits)

lemma is_valid_python_True:
  "is_valid_python l env w p = (True, w') \<Longrightarrow>
     (\<exists>c. files w p = Some c \<and> \<not> read_fault env p \<and> ast_parse l c = ParseOk)
       \<and> files w' = files w"
  by (auto simp: is_valid_python_def open_read_def
      split: option.splits if_splits parse_result.splits)

lemma is_valid_python_readable:
  "files w p = Some c \<Longrightarrow> \<not> read_fault env p \<Longrightarrow> ast_parse l c = ParseOk \<Longrightarrow>
     \<exists>w'. is_valid_python l env w p = (True, w') \<and> files w' = files w"
  by (simp add: is_valid_python_def open_read_def)

lemma update_detected_apply_inv:
  assumes "update_detected l env m w nc = (out, m', w')"
    and "out \<noteq> Skipped" "out \<noteq> Rejected"
  shows "failed_checksum m \<noteq> PyStr nc
    \<and> (\<exists>c. files w new_file = Some c \<and> \<not> read_fault env new_file \<and> ast_parse l c = ParseOk)
    \<and> (\<exists>w3. files w3 = files w \<and> apply_update env m w3 = (out, m', w'))"
  using assms
  by (auto simp: update_detected_def Let_def split: if_splits prod.splits bool.splits
      dest!: is_valid_python_True)

lemma update_detected_reaches_apply:
  assumes "failed_checksum m \<noteq> PyStr nc" "files w new_file = Some c"
    "\<not> read_fault env new_file" "ast_parse l c = ParseOk"
  shows "\<exists>w3. files w3 = files w \<and> update_detected l env m w nc = apply_update env m w3"
proof -
  let ?w2 = "send_email env ''Client Update Started''
      ''The client is updating to a new version.'' (log INFO ''Update detected!'' w)"
  have "files ?w2 new_file = Some c" using assms by simp
  from is_valid_python_readable [OF this assms(3) assms(4)]
  obtain w3 where v: "is_valid_python l env ?w2 new_file = (True, w3)"
    and f: "files w3 = files ?w2" by blast
  have "update_detected l env m w nc = apply_update env m w3"
    using assms(1) v by (simp add: update_detected_def Let_def)
  moreover have "files w3 = files w" using f by simp
  ultimately show ?thesis by blast
qed

lemma after_pull_apply_inv:
  assumes "after_pull l env m w1 = (out, m', w')"
    and "out \<in> {Restarted, UnexpectedError AtBackup, UnexpectedError AtCopy,
                 UnexpectedError AtExec}"
  shows "\<exists>c w3. files w1 new_file = Some c \<and> \<not> read_fault env new_file
      \<and> sha256_hexdigest l c \<noteq> [] \<and> truthy (current_checksum m)
      \<and> current_checksum m \<noteq> Some (sha256_hexdigest l c)
      \<and> failed_checksum m \<noteq> PyStr (sha256_hexdigest l c)
      \<and> ast_parse l c = ParseOk
      \<and> files w3 = files w1 \<and> apply_update env m w3 = (out, m', w')"
  using assms
  apply (simp add: after_pull_def split: if_splits prod.splits option.splits bool.splits)
   apply (auto dest!: get_checksum_Some update_detected_apply_inv)
  done

lemma after_pull_reaches_apply:
  assumes "files w1 new_file = Some c" "\<not> read_fault env new_file"
    "sha256_hexdigest l c \<noteq> []" "truthy (current_checksum m)"
    "current_checksum m \<noteq> Some (sha256_hexdigest l c)"
    "failed_checksum m \<noteq> PyStr (sha256_hexdigest l c)" "ast_parse l c = ParseOk"
  shows "\<exists>w3. files w3 = files w1 \<and> after_pull l env m w1 = apply_update env m w3"
proof -
  have "after_pull l env m w1 = update_detected l env m w1 (sha256_hexdigest l c)"
    using assms by (auto simp: after_pull_def path_exists_def get_checksum_readable)
  then show ?thesis
    using update_detected_reaches_apply [OF assms(6) assms(1) assms(2) assms(7)] by simp
qed

lemma tick_after_pull:
  "remote_pull env w = Inr w1 \<Longrightarrow> tick l env m w = after_pull l env m w1"
  by (simp add: tick_def)

lemma tick_apply_inv:
  assumes "tick l env m w = (out, m', w')"
    and "out \<in> {Restarted, UnexpectedError AtBackup, UnexpectedError AtCopy,
                 UnexpectedError AtExec}"
  shows "\<exists>w1. remote_pull env w = Inr w1 \<and> after_pull l env m w1 = (out, m', w')"
  using assms
  by (auto simp: tick_def unexpected_error_def split: sum.splits pull_error.splits)

lemma remote_pull_files:
  "remote_pull env w = Inr w1 \<Longrightarrow> p \<noteq> new_file \<Longrightarrow> files w1 p = files w p"
  by (auto simp: remote_pull_def split: pull_result.splits)

lemma upt_0_3: "[0..<3] = [0, 1, 2]"
  by (simp add: upt_rec)

lemmas run_defs =
  tick_def remote_pull_def after_pull_def update_detected_def apply_update_def
  unexpected_error_def copy2_def write_file_def open_read_def get_checksum_def
  is_valid_python_def save_failed_update_def load_failed_update_def send_email_def
  path_exists_def sleep_def emit_def log_def upt_0_3 Let_def
  example_lib_def quiet_io_def disk_def
  current_file_def new_file_def backup_def FAILED_UPDATE_FILE_def CHECK_INTERVAL_def

section \<open>The fingerprint\<close>

text \<open>
  Claim C7.  The fingerprint is a function of the content: two readable files with
  the same bytes have the same fingerprint, which is the digest of the whole
  content.  A file that is missing or cannot be read yields \<open>None\<close>, which is no
  string; whenever a string is returned it is the digest of the full content of an
  existing file.  The files are left as they were.
\<close>

theorem get_checksum_deterministic:
  "(files w1 p1 = Some c \<and> files w2 p2 = Some c
      \<and> \<not> read_fault env1 p1 \<and> \<not> read_fault env2 p2
      \<longrightarrow> fst (get_checksum l env1 w1 p1) = fst (get_checksum l env2 w2 p2)
          \<and> fst (get_checksum l env1 w1 p1) = Some (sha256_hexdigest l c))
   \<and> (open_read env w p = Inl e \<longrightarrow> fst (get_checksum l env w p) = None)
   \<and> (files w p = None \<longrightarrow> fst (get_checksum l env w p) = None)
   \<and> (fst (get_checksum l env w p) = None
        \<or> (\<exists>c. files w p = Some c
              \<and> fst (get_checksum l env w p) = Some (sha256_hexdigest l c)))
   \<and> files (snd (get_checksum l env w p)) = files w"
  by (auto simp: get_checksum_def open_read_def split: option.splits io_error.splits)

theorem get_checksum_deterministic_witness:
  "fst (get_checksum example_lib quiet_io (disk ''print(1)'' ''print(1)'') current_file)
     = fst (get_checksum example_lib quiet_io (disk ''print(1)'' ''print(1)'') new_file)
   \<and> fst (get_checksum example_lib quiet_io (disk ''print(1)'' ''print(1)'') current_file)
     = Some ''sha256:print(1)''
   \<and> open_read (quiet_io\<lparr>read_fault := (\<lambda>p. True)\<rparr>) (disk ''a'' ''b'') new_file = Inl OSError
   \<and> fst (get_checksum example_lib (quiet_io\<lparr>read_fault := (\<lambda>p. True)\<rparr>) (disk ''a'' ''b'')
          new_file) = None
   \<and> files (disk ''a'' ''b'') backup = None
   \<and> fst (get_checksum example_lib quiet_io (disk ''a'' ''b'') backup) = None"
  using get_checksum_deterministic [of "disk ''print(1)'' ''print(1)''" current_file "''print(1)''"
      "disk ''print(1)'' ''print(1)''" new_file quiet_io quiet_io example_lib
      "quiet_io\<lparr>read_fault := (\<lambda>p. True)\<rparr>" "disk ''a'' ''b''" new_file OSError]
    get_checksum_deterministic [of _ _ _ _ _ _ _ example_lib quiet_io "disk ''a'' ''b''" backup]
  by (simp add: disk_def quiet_io_def example_lib_def open_read_def get_checksum_def
      current_file_def new_file_def backup_def)

section \<open>The validator\<close>

text \<open>
  Claim C6.  \<open>is_valid_python\<close> always returns a Boolean: \<open>False\<close> when the file
  cannot be read and \<open>False\<close> when the parser raises, whatever it raises.  It
  answers \<open>True\<close> exactly for a readable file that parses.  The candidate is only
  read and parsed: the files are left as they were and the one effect is a line in
  the log.
\<close>

theorem is_valid_python_invalid_on_failure:
  "(open_read env w p = Inl e \<longrightarrow> fst (is_valid_python l env w p) = False)
   \<and> (open_read env w p = Inr src \<and> ast_parse l src \<noteq> ParseOk
        \<longrightarrow> fst (is_valid_python l env w p) = False)
   \<and> (fst (is_valid_python l env w p)
        \<longleftrightarrow> (\<exists>c. files w p = Some c \<and> \<not> read_fault env p \<and> ast_parse l c = ParseOk))
   \<and> files (snd (is_valid_python l env w p)) = files w
   \<and> (\<exists>lv msg. trace (snd (is_valid_python l env w p)) = trace w @ [Log lv msg])"
  by (auto simp: is_valid_python_def open_read_def split: option.splits parse_result.splits)

theorem is_valid_python_invalid_on_failure_witness:
  "open_read (quiet_io\<lparr>read_fault := (\<lambda>p. True)\<rparr>) (disk ''a'' ''b'') new_file = Inl OSError
   \<and> fst (is_valid_python example_lib (quiet_io\<lparr>read_fault := (\<lambda>p. True)\<rparr>) (disk ''a'' ''b'') new_file) = False
   \<and> open_read quiet_io (disk ''a'' ''print(1'') new_file = Inr ''print(1''
   \<and> ast_parse example_lib ''print(1'' \<noteq> ParseOk
   \<and> fst (is_valid_python example_lib quiet_io (disk ''a'' ''print(1'') new_file) = False
   \<and> fst (is_valid_python example_lib quiet_io (disk ''a'' ''print(1)'') new_file) = True"
  using is_valid_python_invalid_on_failure [of "quiet_io\<lparr>read_fault := (\<lambda>p. True)\<rparr>"
      "disk ''a'' ''b''" new_file OSError example_lib]
    is_valid_python_invalid_on_failure [of quiet_io "disk ''a'' ''print(1''" new_file _
      example_lib "''print(1''"]
    is_valid_python_invalid_on_failure [of quiet_io "disk ''a'' ''print(1)''" new_file _
      example_lib]
  by (simp add: disk_def quiet_io_def example_lib_def open_read_def 
      current_file_def new_file_def)

section \<open>The ledger of the failed update\<close>

text \<open>
  Claim C8, as stated, at a concrete input: the ledger file is a JSON object whose
  checksum is a number, which is no record the program ever writes;
  \<open>load_failed_update\<close> returns the number, not \<open>None\<close>.
\<close>

theorem ledger_load_malformed_counterexample:
  "\<not> (fst (load_failed_update
             (example_lib\<lparr>json_load :=
                (\<lambda>b. if b = ''{'' @ [CHR 0x22] @ ''checksum'' @ [CHR 0x22] @ '': 5}''
                      then Inr (PyDict [(''checksum'', PyInt 5)])
                      else Inl JSONDecodeError)\<rparr>)
             quiet_io
             \<lparr>files = [FAILED_UPDATE_FILE \<mapsto>
                         ''{'' @ [CHR 0x22] @ ''checksum'' @ [CHR 0x22] @ '': 5}''],
                trace = []\<rparr>) = PyNone)
   \<and> fst (load_failed_update
             (example_lib\<lparr>json_load :=
                (\<lambda>b. if b = ''{'' @ [CHR 0x22] @ ''checksum'' @ [CHR 0x22] @ '': 5}''
                      then Inr (PyDict [(''checksum'', PyInt 5)])
                      else Inl JSONDecodeError)\<rparr>)
             quiet_io
             \<lparr>files = [FAILED_UPDATE_FILE \<mapsto>
                         ''{'' @ [CHR 0x22] @ ''checksum'' @ [CHR 0x22] @ '': 5}''],
                trace = []\<rparr>) = PyInt 5"
  by (simp add: load_failed_update_def path_exists_def open_read_def quiet_io_def
      example_lib_def)

text \<open>
  Claim C8, amended.  \<open>load_failed_update\<close> returns in every case and never
  changes a file.  It returns \<open>None\<close> when the file is absent, when it cannot be
  read, when it is not JSON, when the JSON is not an object and when the object has
  no checksum; for a readable object with a checksum it returns the value stored
  under that key as it is, of whatever type.  A write that succeeds replaces the
  whole file by the one-field record of the new fingerprint, whatever was saved
  before, and a codec that reads back what it wrote makes the next load return that
  fingerprint.
\<close>

theorem ledger_load_cases_and_save_overwrites:
  "(files w FAILED_UPDATE_FILE = None \<longrightarrow> fst (load_failed_update l env w) = PyNone)
   \<and> (read_fault env FAILED_UPDATE_FILE \<longrightarrow> fst (load_failed_update l env w) = PyNone)
   \<and> (files w FAILED_UPDATE_FILE = Some b \<and> json_load l b = Inl je
        \<longrightarrow> fst (load_failed_update l env w) = PyNone)
   \<and> (files w FAILED_UPDATE_FILE = Some b \<and> json_load l b = Inr v \<and> (\<forall>kvs. v \<noteq> PyDict kvs)
        \<longrightarrow> fst (load_failed_update l env w) = PyNone)
   \<and> (files w FAILED_UPDATE_FILE = Some b \<and> json_load l b = Inr (PyDict kvs)
        \<and> map_of kvs ''checksum'' = None
        \<longrightarrow> fst (load_failed_update l env w) = PyNone)
   \<and> (files w FAILED_UPDATE_FILE = Some b \<and> \<not> read_fault env FAILED_UPDATE_FILE
        \<and> json_load l b = Inr (PyDict kvs) \<and> map_of kvs ''checksum'' = Some x
        \<longrightarrow> fst (load_failed_update l env w) = x)
   \<and> files (snd (load_failed_update l env w)) = files w
   \<and> (write_fault env FAILED_UPDATE_FILE = NoFault
        \<longrightarrow> files (save_failed_update l env w fp)
              = (files w)(FAILED_UPDATE_FILE \<mapsto> json_dump l (PyDict [(''checksum'', PyStr fp)]))
          \<and> files (save_failed_update l env (save_failed_update l env w fp0) fp)
              = files (save_failed_update l env w fp))
   \<and> (write_fault env FAILED_UPDATE_FILE = NoFault \<and> \<not> read_fault env FAILED_UPDATE_FILE
        \<and> json_load l (json_dump l (PyDict [(''checksum'', PyStr fp)]))
            = Inr (PyDict [(''checksum'', PyStr fp)])
        \<longrightarrow> fst (load_failed_update l env (save_failed_update l env w fp)) = PyStr fp)"
  by (auto simp: load_failed_update_def save_failed_update_def write_file_def open_read_def
      path_exists_def split: option.splits json_error.splits pyval.splits sum.splits)

theorem ledger_load_cases_and_save_overwrites_witness:
  "files (disk ''a'' ''b'') FAILED_UPDATE_FILE = None
   \<and> fst (load_failed_update example_lib quiet_io (disk ''a'' ''b'')) = PyNone
   \<and> fst (load_failed_update example_lib (quiet_io\<lparr>read_fault := (\<lambda>p. True)\<rparr>)
          (save_failed_update example_lib quiet_io (disk ''a'' ''b'') ''sha256:b'')) = PyNone
   \<and> json_load example_lib ''{not json'' = Inl JSONDecodeError
   \<and> fst (load_failed_update example_lib quiet_io
          \<lparr>files = [FAILED_UPDATE_FILE \<mapsto> ''{not json''], trace = []\<rparr>) = PyNone
   \<and> fst (load_failed_update (example_lib\<lparr>json_load := (\<lambda>b. Inr (PyList []))\<rparr>) quiet_io
          \<lparr>files = [FAILED_UPDATE_FILE \<mapsto> ''[]''], trace = []\<rparr>) = PyNone
   \<and> fst (load_failed_update (example_lib\<lparr>json_load := (\<lambda>b. Inr (PyDict []))\<rparr>) quiet_io
          \<lparr>files = [FAILED_UPDATE_FILE \<mapsto> ''{}''], trace = []\<rparr>) = PyNone
   \<and> fst (load_failed_update
          (example_lib\<lparr>json_load := (\<lambda>b. Inr (PyDict [(''checksum'', PyBool True)]))\<rparr>)
          quiet_io
          \<lparr>files = [FAILED_UPDATE_FILE \<mapsto> ''{}''], trace = []\<rparr>) = PyBool True
   \<and> files (save_failed_update example_lib quiet_io
          (save_failed_update example_lib quiet_io (disk ''a'' ''b'') ''sha256:a'') ''sha256:b'')
        FAILED_UPDATE_FILE
       = Some (json_dump example_lib (PyDict [(''checksum'', PyStr ''sha256:b'')]))
   \<and> fst (load_failed_update example_lib quiet_io
          (save_failed_update example_lib quiet_io (disk ''a'' ''b'') ''sha256:b''))
       = PyStr ''sha256:b''"
  using
    ledger_load_cases_and_save_overwrites [where w = "disk ''a'' ''b''" and l = example_lib
      and env = quiet_io and fp = "''sha256:b''" and ?fp0.0 = "''sha256:a''"]
    ledger_load_cases_and_save_overwrites [where l = example_lib
      and env = "quiet_io\<lparr>read_fault := (\<lambda>p. True)\<rparr>"
      and w = "save_failed_update example_lib quiet_io (disk ''a'' ''b'') ''sha256:b''"]
    ledger_load_cases_and_save_overwrites [where l = example_lib and env = quiet_io
      and w = "\<lparr>files = [FAILED_UPDATE_FILE \<mapsto> ''{not json''], trace = []\<rparr>"
      and b = "''{not json''" and je = JSONDecodeError]
    ledger_load_cases_and_save_overwrites [where
      l = "example_lib\<lparr>json_load := (\<lambda>b. Inr (PyList []))\<rparr>" and env = quiet_io
      and w = "\<lparr>files = [FAILED_UPDATE_FILE \<mapsto> ''[]''], trace = []\<rparr>"
      and b = "''[]''" and v = "PyList []"]
    ledger_load_cases_and_save_overwrites [where
      l = "example_lib\<lparr>json_load := (\<lambda>b. Inr (PyDict []))\<rparr>" and env = quiet_io
      and w = "\<lparr>files = [FAILED_UPDATE_FILE \<mapsto> ''{}''], trace = []\<rparr>"
      and b = "''{}''" and kvs = "[]"]
    ledger_load_cases_and_save_overwrites [where
      l = "example_lib\<lparr>json_load := (\<lambda>b. Inr (PyDict [(''checksum'', PyBool True)]))\<rparr>"
      and env = quiet_io
      and w = "\<lparr>files = [FAILED_UPDATE_FILE \<mapsto> ''{}''], trace = []\<rparr>"
      and b = "''{}''" and kvs = "[(''checksum'', PyBool True)]" and x = "PyBool True"]
  by (simp add: disk_def quiet_io_def example_lib_def example_json_load_def
      example_json_dump_def example_prefix_def example_suffix_def
      current_file_def new_file_def FAILED_UPDATE_FILE_def)

section \<open>Applying an update\<close>

text \<open>
  Claim C3.  When an iteration ends in the restart and the running file existed, the
  backup file holds what the running file held before, the running file holds the
  candidate, which the validator accepted, and the last events of the iteration are
  the copy to the backup, then the copy over the running file, then the restart.
\<close>

theorem successful_apply_backs_up_then_replaces:
  assumes "tick l env m w = (Restarted, m', w')"
    and "files w current_file = Some r"
  shows "\<exists>w1 c. remote_pull env w = Inr w1 \<and> files w1 new_file = Some c
      \<and> ast_parse l c = ParseOk
      \<and> files w' backup = Some r
      \<and> files w' current_file = Some c
      \<and> (\<exists>pre. trace w' = pre @ [Copy2 current_file backup, Copy2 new_file current_file,
             Log INFO ''Restarting with new version...'', LoopStop, Execv current_file])"
proof -
  from tick_apply_inv [OF assms(1)] obtain w1 where
    p: "remote_pull env w = Inr w1" and a: "after_pull l env m w1 = (Restarted, m', w')"
    by auto
  from after_pull_apply_inv [OF a] obtain c w3 where
    c: "files w1 new_file = Some c" and v: "ast_parse l c = ParseOk"
    and f: "files w3 = files w1" and u: "apply_update env m w3 = (Restarted, m', w')"
    by auto
  have r: "files w3 current_file = Some r"
    using f remote_pull_files [OF p, of current_file] assms(2) paths_distinct by simp
  have "files w' backup = Some r"
    using apply_update_Restarted(2) [OF u r] .
  moreover have "files w' current_file = Some c"
    using apply_update_Restarted(1) [OF u] f c by auto
  moreover have "\<exists>pre. trace w' = pre @ [Copy2 current_file backup,
      Copy2 new_file current_file, Log INFO ''Restarting with new version...'', LoopStop,
      Execv current_file]"
    using apply_update_Restarted(3) [OF u r] by blast
  ultimately show ?thesis using p c v by blast
qed

theorem successful_apply_backs_up_then_replaces_witness:
  "fst (tick example_lib quiet_io
          \<lparr>current_checksum = Some ''sha256:print(0)'', failed_checksum = PyNone\<rparr>
          (disk ''print(0)'' ''print(2)'')) = Restarted
   \<and> files (disk ''print(0)'' ''print(2)'') current_file = Some ''print(0)''
   \<and> files (snd (snd (tick example_lib quiet_io
          \<lparr>current_checksum = Some ''sha256:print(0)'', failed_checksum = PyNone\<rparr>
          (disk ''print(0)'' ''print(2)'')))) backup = Some ''print(0)''
   \<and> files (snd (snd (tick example_lib quiet_io
          \<lparr>current_checksum = Some ''sha256:print(0)'', failed_checksum = PyNone\<rparr>
          (disk ''print(0)'' ''print(2)'')))) current_file = Some ''print(2)''"
  (is "fst ?t = _ \<and> _ \<and> files (snd (snd ?t)) backup = _ \<and> _")
proof -
  have o: "fst ?t = Restarted"
    by (simp add: run_defs)
  then have e: "?t = (Restarted, fst (snd ?t), snd (snd ?t))"
    by (simp add: prod_eq_iff)
  have r: "files (disk ''print(0)'' ''print(2)'') current_file = Some ''print(0)''"
    by (simp add: disk_def current_file_def new_file_def)
  have p: "remote_pull quiet_io (disk ''print(0)'' ''print(2)'')
      = Inr (disk ''print(0)'' ''print(2)'')"
    by (simp add: remote_pull_def quiet_io_def)
  have c: "files (disk ''print(0)'' ''print(2)'') new_file = Some ''print(2)''"
    by (simp add: disk_def)
  from successful_apply_backs_up_then_replaces [OF e r] p c o r
  show ?thesis by auto
qed

text \<open>
  Claim C4.  When the copy of the running file to the backup raises, the running
  file is what it was before the iteration; the iteration ends with the handler's
  log line and the sleep, and the copy over the running file is never attempted.
\<close>

theorem backup_failure_keeps_running_file:
  assumes "tick l env m w = (UnexpectedError AtBackup, m', w')"
  shows "files w' current_file = files w current_file
    \<and> (\<exists>pre. trace w' = pre @ [Copy2 current_file backup, Log ERROR ''Unexpected error'',
           Sleep CHECK_INTERVAL])"
proof -
  from tick_apply_inv [OF assms(1)] obtain w1 where
    p: "remote_pull env w = Inr w1"
    and a: "after_pull l env m w1 = (UnexpectedError AtBackup, m', w')"
    by auto
  from after_pull_apply_inv [OF a] obtain w3 where
    f: "files w3 = files w1"
    and u: "apply_update env m w3 = (UnexpectedError AtBackup, m', w')"
    by auto
  have "files w' current_file = files w3 current_file"
    using apply_update_AtBackup(1) [OF u, of current_file] paths_distinct by simp
  also have "\<dots> = files w current_file"
    using f remote_pull_files [OF p, of current_file] paths_distinct by simp
  finally have "files w' current_file = files w current_file" .
  moreover have "\<exists>pre. trace w' = pre @ [Copy2 current_file backup,
      Log ERROR ''Unexpected error'', Sleep CHECK_INTERVAL]"
    using apply_update_AtBackup(2) [OF u] by blast
  ultimately show ?thesis by blast
qed

theorem backup_failure_keeps_running_file_witness:
  "fst (tick example_lib (quiet_io\<lparr>write_fault := (\<lambda>p. WriteFails 3)\<rparr>)
          \<lparr>current_checksum = Some ''sha256:print(0)'', failed_checksum = PyNone\<rparr>
          (disk ''print(0)'' ''print(2)'')) = UnexpectedError AtBackup
   \<and> files (snd (snd (tick example_lib (quiet_io\<lparr>write_fault := (\<lambda>p. WriteFails 3)\<rparr>)
          \<lparr>current_checksum = Some ''sha256:print(0)'', failed_checksum = PyNone\<rparr>
          (disk ''print(0)'' ''print(2)'')))) current_file = Some ''print(0)''
   \<and> files (snd (snd (tick example_lib (quiet_io\<lparr>write_fault := (\<lambda>p. WriteFails 3)\<rparr>)
          \<lparr>current_checksum = Some ''sha256:print(0)'', failed_checksum = PyNone\<rparr>
          (disk ''print(0)'' ''print(2)'')))) backup = Some ''pri''"
  (is "fst ?t = _ \<and> _ \<and> _")
proof -
  have o: "fst ?t = UnexpectedError AtBackup"
    by (simp add: run_defs)
  then have e: "?t = (UnexpectedError AtBackup, fst (snd ?t), snd (snd ?t))"
    by (simp add: prod_eq_iff)
  have r: "files (disk ''print(0)'' ''print(2)'') current_file = Some ''print(0)''"
    by (simp add: disk_def current_file_def new_file_def)
  have b: "files (snd (snd ?t)) backup = Some ''pri''"
    by (simp add: run_defs)
  from backup_failure_keeps_running_file [OF e] o r b
  show ?thesis by simp
qed

lemma apply_update_ledger:
  assumes "apply_update env m w = (out, m', w')"
  shows "files w' FAILED_UPDATE_FILE = files w FAILED_UPDATE_FILE"
    and "files w' new_file = files w new_file"
proof -
  obtain r1 w1 where
    c1: "(if path_exists w current_file then copy2 env w current_file backup else (Inr (), w))
          = (r1, w1)"
    by (cases "(if path_exists w current_file then copy2 env w current_file backup
                else (Inr (), w))") auto
  have f1: "q \<noteq> backup \<Longrightarrow> files w1 q = files w q" for q
    using c1 by (auto split: if_splits dest: copy2_files_other)
  obtain r2 w2 where c2: "copy2 env w1 new_file current_file = (r2, w2)"
    by (cases "copy2 env w1 new_file current_file") auto
  have f2: "q \<noteq> current_file \<Longrightarrow> files w2 q = files w1 q" for q
    using c2 by (rule copy2_files_other)
  have "files w' = files w1 \<or> files w' = files w2"
    using assms c1 c2
    by (auto simp: apply_update_def unexpected_error_def Let_def
        split: if_splits prod.splits sum.splits)
  then show "files w' FAILED_UPDATE_FILE = files w FAILED_UPDATE_FILE"
    and "files w' new_file = files w new_file"
    using f1 f2 paths_distinct by auto
qed

lemma apply_update_error_trace:
  assumes "apply_update env m w = (UnexpectedError st, m', w')"
  shows "\<exists>pre. trace w' = pre @ [Log ERROR ''Unexpected error'', Sleep CHECK_INTERVAL]"
  using assms
  by (auto simp: apply_update_def unexpected_error_def Let_def
      split: if_splits prod.splits sum.splits)

text \<open>
  Claim C5.  When the backup copy or the copy over the running file raises, the
  iteration ends with the handler's log line and the sleep, the two variables of the
  loop are what they were and the ledger file is untouched.  The candidate is still
  in place, and any later iteration that finds it there and can read it gets past the
  comparison and the validator again and calls the apply step again.
\<close>

theorem apply_io_failure_is_not_recorded:
  assumes "tick l env m w = (UnexpectedError st, m', w')"
    and "st = AtBackup \<or> st = AtCopy"
  shows "m' = m
    \<and> files w' FAILED_UPDATE_FILE = files w FAILED_UPDATE_FILE
    \<and> (\<exists>pre. trace w' = pre @ [Log ERROR ''Unexpected error'', Sleep CHECK_INTERVAL])
    \<and> (\<exists>c. files w' new_file = Some c
          \<and> (\<forall>env2 w2. remote_pull env2 w' = Inr w2 \<and> files w2 new_file = Some c
                 \<and> \<not> read_fault env2 new_file
               \<longrightarrow> fst (tick l env2 m' w')
                     \<in> {Restarted, UnexpectedError AtBackup, UnexpectedError AtCopy,
                        UnexpectedError AtExec}))"
proof -
  have st: "UnexpectedError st \<in> {Restarted, UnexpectedError AtBackup,
      UnexpectedError AtCopy, UnexpectedError AtExec}"
    using assms(2) by auto
  from tick_apply_inv [OF assms(1) st] obtain w1 where
    p: "remote_pull env w = Inr w1"
    and a: "after_pull l env m w1 = (UnexpectedError st, m', w')"
    by auto
  from after_pull_apply_inv [OF a st] obtain c w3 where
    c: "files w1 new_file = Some c"
    and g: "sha256_hexdigest l c \<noteq> []" "truthy (current_checksum m)"
      "current_checksum m \<noteq> Some (sha256_hexdigest l c)"
      "failed_checksum m \<noteq> PyStr (sha256_hexdigest l c)" "ast_parse l c = ParseOk"
    and f: "files w3 = files w1"
    and u: "apply_update env m w3 = (UnexpectedError st, m', w')"
    by auto
  have m: "m' = m" using u by (rule apply_update_mem)
  have "files w' FAILED_UPDATE_FILE = files w3 FAILED_UPDATE_FILE"
    using u by (rule apply_update_ledger)
  then have led: "files w' FAILED_UPDATE_FILE = files w FAILED_UPDATE_FILE"
    using f remote_pull_files [OF p, of FAILED_UPDATE_FILE] paths_distinct by simp
  have tr: "\<exists>pre. trace w' = pre @ [Log ERROR ''Unexpected error'', Sleep CHECK_INTERVAL]"
    using u by (rule apply_update_error_trace)
  have cand: "files w' new_file = Some c"
    using apply_update_ledger(2) [OF u] f c by simp
  have again: "fst (tick l env2 m' w')
      \<in> {Restarted, UnexpectedError AtBackup, UnexpectedError AtCopy, UnexpectedError AtExec}"
    if "remote_pull env2 w' = Inr w2" "files w2 new_file = Some c" "\<not> read_fault env2 new_file"
    for env2 w2
  proof -
    from after_pull_reaches_apply [OF that(2) that(3) g]
    obtain w4 where "after_pull l env2 m w2 = apply_update env2 m w4" by blast
    then have "tick l env2 m' w' = apply_update env2 m w4"
      using tick_after_pull [OF that(1)] m by simp
    then show ?thesis using apply_update_outcomes [of env2 m w4] by simp
  qed
  show ?thesis using m led tr cand again by blast
qed

theorem apply_io_failure_is_not_recorded_witness:
  "fst (tick example_lib
          (quiet_io\<lparr>write_fault := (\<lambda>p. if p = current_file then WriteFails 2 else NoFault)\<rparr>)
          \<lparr>current_checksum = Some ''sha256:print(0)'', failed_checksum = PyNone\<rparr>
          (disk ''print(0)'' ''print(2)'')) = UnexpectedError AtCopy
   \<and> fst (snd (tick example_lib
          (quiet_io\<lparr>write_fault := (\<lambda>p. if p = current_file then WriteFails 2 else NoFault)\<rparr>)
          \<lparr>current_checksum = Some ''sha256:print(0)'', failed_checksum = PyNone\<rparr>
          (disk ''print(0)'' ''print(2)'')))
       = \<lparr>current_checksum = Some ''sha256:print(0)'', failed_checksum = PyNone\<rparr>
   \<and> files (snd (snd (tick example_lib
          (quiet_io\<lparr>write_fault := (\<lambda>p. if p = current_file then WriteFails 2 else NoFault)\<rparr>)
          \<lparr>current_checksum = Some ''sha256:print(0)'', failed_checksum = PyNone\<rparr>
          (disk ''print(0)'' ''print(2)'')))) FAILED_UPDATE_FILE = None
   \<and> fst (tick example_lib quiet_io
          (fst (snd (tick example_lib
          (quiet_io\<lparr>write_fault := (\<lambda>p. if p = current_file then WriteFails 2 else NoFault)\<rparr>)
          \<lparr>current_checksum = Some ''sha256:print(0)'', failed_checksum = PyNone\<rparr>
          (disk ''print(0)'' ''print(2)''))))
          (snd (snd (tick example_lib
          (quiet_io\<lparr>write_fault := (\<lambda>p. if p = current_file then WriteFails 2 else NoFault)\<rparr>)
          \<lparr>current_checksum = Some ''sha256:print(0)'', failed_checksum = PyNone\<rparr>
          (disk ''print(0)'' ''print(2)''))))) = Restarted"
  (is "fst ?t = _ \<and> fst (snd ?t) = ?m \<and> _ \<and> _")
proof -
  have o: "fst ?t = UnexpectedError AtCopy"
    by (simp add: run_defs)
  then have e: "?t = (UnexpectedError AtCopy, fst (snd ?t), snd (snd ?t))"
    by (simp add: prod_eq_iff)
  have l: "files (disk ''print(0)'' ''print(2)'') FAILED_UPDATE_FILE = None"
    by (simp add: run_defs)
  have again: "fst (tick example_lib quiet_io (fst (snd ?t)) (snd (snd ?t))) = Restarted"
    by (simp add: run_defs)
  from apply_io_failure_is_not_recorded [OF e] o l again
  show ?thesis by simp
qed

section \<open>The comparison\<close>




lemma remote_pull_trace: "remote_pull env w = Inr w1 \<Longrightarrow> trace w1 = trace w"
  by (auto simp: remote_pull_def split: pull_result.splits)


lemma tick_candidate_missing:
  assumes "remote_pull env w = Inr w1" and "\<not> path_exists w1 new_file"
  shows "\<exists>w'. tick l env m w = (CandidateNotFound, m, w') \<and> files w' = files w1
      \<and> filter is_smtp_send (trace w') = filter is_smtp_send (trace w)"
  using assms remote_pull_trace [OF assms(1)]
  by (simp add: tick_def after_pull_def)


text \<open>
  A stale fingerprint is reached by the program alone: the process starts, applies
  an update whose \<open>os.execv\<close> then fails, and carries on with the fingerprint of
  the file it has just overwritten.
\<close>

lemma stale_checksum_after_failed_execv:
  "(case startup example_lib quiet_io (disk ''print(0)'' ''print(2)'') of
      (m0, w0) \<Rightarrow>
        (case tick example_lib (quiet_io\<lparr>execv_fails := True\<rparr>) m0 w0 of
           (out1, m1, w1) \<Rightarrow>
             out1 = UnexpectedError AtExec
             \<and> files w1 new_file = Some ''print(2)''
             \<and> files w1 current_file = Some ''print(2)''
             \<and> current_checksum m1 = Some ''sha256:print(0)''
             \<and> fst (tick example_lib quiet_io m1 w1) = Restarted))"
  by (simp add: startup_def run_defs)




section \<open>Saving to the ledger\<close>

lemma send_attempts_env:
  "smtp env1 = smtp env2 \<Longrightarrow>
     send_attempts env1 subject body retries delay as w
       = send_attempts env2 subject body retries delay as w"
  by (induction as arbitrary: w) (simp_all add: Let_def split: smtp_result.splits)

lemma send_email_env:
  "smtp env1 = smtp env2 \<Longrightarrow> send_email env1 subject body w = send_email env2 subject body w"
  by (simp add: send_email_def send_attempts_env [of env1 env2])

lemma open_read_env:
  assumes "read_fault env1 = read_fault env2"
  shows "open_read env1 w p = open_read env2 w p"
proof -
  have "read_fault env1 p = read_fault env2 p"
    using assms by (rule fun_cong)
  then show ?thesis by (simp add: open_read_def split: option.splits)
qed

lemma write_file_env:
  "write_fault env1 p = write_fault env2 p \<Longrightarrow> write_file env1 w p c = write_file env2 w p c"
  by (simp add: write_file_def)

lemma copy2_env:
  assumes "read_fault env1 = read_fault env2" "write_fault env1 dst = write_fault env2 dst"
  shows "copy2 env1 w src dst = copy2 env2 w src dst"
  by (simp add: copy2_def Let_def open_read_env [OF assms(1)] write_file_env [OF assms(2)]
      split: sum.splits)

lemma apply_update_env:
  assumes "read_fault env1 = read_fault env2"
    and "write_fault env1 backup = write_fault env2 backup"
    and "write_fault env1 current_file = write_fault env2 current_file"
    and "execv_fails env1 = execv_fails env2"
  shows "apply_update env1 m w = apply_update env2 m w"
  by (simp add: apply_update_def Let_def copy2_env [OF assms(1) assms(2)]
      copy2_env [OF assms(1) assms(3)] assms(4) split: prod.splits sum.splits)

lemma is_valid_python_env:
  "read_fault env1 = read_fault env2 \<Longrightarrow> is_valid_python l env1 w p = is_valid_python l env2 w p"
  by (simp add: is_valid_python_def open_read_env [of env1 env2])

lemma get_checksum_env:
  "read_fault env1 = read_fault env2 \<Longrightarrow> get_checksum l env1 w p = get_checksum l env2 w p"
  by (simp add: get_checksum_def open_read_env [of env1 env2])


lemma update_detected_ledger_fault:
  assumes "read_fault env1 = read_fault env2" "smtp env1 = smtp env2"
    and "write_fault env1 backup = write_fault env2 backup"
    and "write_fault env1 current_file = write_fault env2 current_file"
    and "execv_fails env1 = execv_fails env2"
  shows "fst (update_detected l env1 m w nc) = fst (update_detected l env2 m w nc)
    \<and> fst (snd (update_detected l env1 m w nc)) = fst (snd (update_detected l env2 m w nc))"
  by (simp add: update_detected_def Let_def send_email_env [OF assms(2)]
      is_valid_python_env [OF assms(1)] apply_update_env [OF assms(1) assms(3) assms(4) assms(5)]
      split: prod.splits bool.splits)

lemma after_pull_ledger_fault:
  assumes "read_fault env1 = read_fault env2" "smtp env1 = smtp env2"
    and "write_fault env1 backup = write_fault env2 backup"
    and "write_fault env1 current_file = write_fault env2 current_file"
    and "execv_fails env1 = execv_fails env2"
  shows "fst (after_pull l env1 m w) = fst (after_pull l env2 m w)
    \<and> fst (snd (after_pull l env1 m w)) = fst (snd (after_pull l env2 m w))"
  using update_detected_ledger_fault [OF assms, of l m]
  by (simp add: after_pull_def get_checksum_env [OF assms(1)]
      split: prod.splits option.splits bool.splits)

lemma tick_ledger_fault:
  assumes "pull env1 = pull env2" "read_fault env1 = read_fault env2" "smtp env1 = smtp env2"
    and "write_fault env1 backup = write_fault env2 backup"
    and "write_fault env1 current_file = write_fault env2 current_file"
    and "execv_fails env1 = execv_fails env2"
  shows "fst (tick l env1 m w) = fst (tick l env2 m w)
    \<and> fst (snd (tick l env1 m w)) = fst (snd (tick l env2 m w))"
proof -
  have "remote_pull env1 w = remote_pull env2 w"
    using assms(1) by (simp add: remote_pull_def)
  then show ?thesis
    using after_pull_ledger_fault [OF assms(2-6), of l m]
    by (simp add: tick_def unexpected_error_def split: sum.splits pull_error.splits)
qed

lemmas json_defs =
  example_json_load_def example_json_dump_def example_prefix_def example_suffix_def

text \<open>
  Claim C10, as stated, at a concrete input: the ledger holds a fingerprint, the
  next save opens the file and then fails to write; the file is left empty, not as
  it was.
\<close>

theorem ledger_write_failure_counterexample:
  "\<not> (write_fault (quiet_io\<lparr>write_fault := (\<lambda>p. WriteFails 0)\<rparr>) FAILED_UPDATE_FILE \<noteq> NoFault
       \<longrightarrow> files (save_failed_update example_lib (quiet_io\<lparr>write_fault := (\<lambda>p. WriteFails 0)\<rparr>)
                   (save_failed_update example_lib quiet_io (disk ''print(0)'' ''print(1'')
                      ''sha256:print(9'')
                   ''sha256:print(1'') FAILED_UPDATE_FILE
           = files (save_failed_update example_lib quiet_io (disk ''print(0)'' ''print(1'')
                      ''sha256:print(9'') FAILED_UPDATE_FILE)"
  by (simp add: run_defs example_json_dump_def example_prefix_def example_suffix_def)

text \<open>
  Claim C10, amended.  \<open>save_failed_update\<close> returns in every case.  When the file
  cannot be opened the files are what they were; when the write fails after the
  open the ledger file holds a prefix, possibly empty, of the new record; either
  failure is logged and no other file is touched.  The outcome of an iteration and
  the variables of the loop do not depend on whether the write to the ledger fails.
\<close>

theorem save_failed_update_failure_effects:
  "(write_fault env FAILED_UPDATE_FILE = OpenFails
      \<longrightarrow> files (save_failed_update l env w fp) = files w)
   \<and> (write_fault env FAILED_UPDATE_FILE = WriteFails n
      \<longrightarrow> files (save_failed_update l env w fp)
            = (files w)(FAILED_UPDATE_FILE \<mapsto>
                 take n (json_dump l (PyDict [(''checksum'', PyStr fp)]))))
   \<and> (write_fault env FAILED_UPDATE_FILE \<noteq> NoFault
      \<longrightarrow> trace (save_failed_update l env w fp)
            = trace w @ [Log ERROR ''Error saving failed update''])
   \<and> (\<forall>p. p \<noteq> FAILED_UPDATE_FILE \<longrightarrow> files (save_failed_update l env w fp) p = files w p)
   \<and> fst (tick l (env\<lparr>write_fault := (write_fault env)(FAILED_UPDATE_FILE := x)\<rparr>) m w0)
       = fst (tick l env m w0)
   \<and> fst (snd (tick l (env\<lparr>write_fault := (write_fault env)(FAILED_UPDATE_FILE := x)\<rparr>) m w0))
       = fst (snd (tick l env m w0))"
proof -
  have "fst (tick l (env\<lparr>write_fault := (write_fault env)(FAILED_UPDATE_FILE := x)\<rparr>) m w0)
       = fst (tick l env m w0)
   \<and> fst (snd (tick l (env\<lparr>write_fault := (write_fault env)(FAILED_UPDATE_FILE := x)\<rparr>) m w0))
       = fst (snd (tick l env m w0))"
    using paths_distinct by (intro tick_ledger_fault) simp_all
  moreover have "(write_fault env FAILED_UPDATE_FILE = OpenFails
      \<longrightarrow> files (save_failed_update l env w fp) = files w)
   \<and> (write_fault env FAILED_UPDATE_FILE = WriteFails n
      \<longrightarrow> files (save_failed_update l env w fp)
            = (files w)(FAILED_UPDATE_FILE \<mapsto>
                 take n (json_dump l (PyDict [(''checksum'', PyStr fp)]))))
   \<and> (write_fault env FAILED_UPDATE_FILE \<noteq> NoFault
      \<longrightarrow> trace (save_failed_update l env w fp)
            = trace w @ [Log ERROR ''Error saving failed update''])
   \<and> (\<forall>p. p \<noteq> FAILED_UPDATE_FILE \<longrightarrow> files (save_failed_update l env w fp) p = files w p)"
    by (auto simp: save_failed_update_def write_file_def split: wfault.splits)
  ultimately show ?thesis by blast
qed

theorem save_failed_update_failure_effects_witness:
  "write_fault (quiet_io\<lparr>write_fault := (\<lambda>p. OpenFails)\<rparr>) FAILED_UPDATE_FILE = OpenFails
   \<and> files (save_failed_update example_lib (quiet_io\<lparr>write_fault := (\<lambda>p. OpenFails)\<rparr>)
         (save_failed_update example_lib quiet_io (disk ''print(0)'' ''print(1'')
            ''sha256:print(9'') ''sha256:print(1'')
      = files (save_failed_update example_lib quiet_io (disk ''print(0)'' ''print(1'')
            ''sha256:print(9'')
   \<and> write_fault (quiet_io\<lparr>write_fault := (\<lambda>p. WriteFails 5)\<rparr>) FAILED_UPDATE_FILE
      = WriteFails 5
   \<and> files (save_failed_update example_lib (quiet_io\<lparr>write_fault := (\<lambda>p. WriteFails 5)\<rparr>)
         (disk ''print(0)'' ''print(1'') ''sha256:print(1'') FAILED_UPDATE_FILE
      = Some (''{'' @ [CHR 0x22] @ ''che'')
   \<and> trace (save_failed_update example_lib (quiet_io\<lparr>write_fault := (\<lambda>p. WriteFails 5)\<rparr>)
         (disk ''print(0)'' ''print(1'') ''sha256:print(1'')
      = [Log ERROR ''Error saving failed update'']
   \<and> files (save_failed_update example_lib (quiet_io\<lparr>write_fault := (\<lambda>p. WriteFails 5)\<rparr>)
         (disk ''print(0)'' ''print(1'') ''sha256:print(1'') current_file
      = Some ''print(0)''
   \<and> fst (tick example_lib
         (quiet_io\<lparr>write_fault := (write_fault quiet_io)(FAILED_UPDATE_FILE := WriteFails 0)\<rparr>)
         \<lparr>current_checksum = Some ''sha256:print(0)'', failed_checksum = PyNone\<rparr>
         (disk ''print(0)'' ''print(1'')) = Rejected"
  using
    save_failed_update_failure_effects [where env = "quiet_io\<lparr>write_fault := (\<lambda>p. OpenFails)\<rparr>"
      and l = example_lib and fp = "''sha256:print(1''"
      and w = "save_failed_update example_lib quiet_io (disk ''print(0)'' ''print(1'')
            ''sha256:print(9''"]
    save_failed_update_failure_effects [where env = "quiet_io\<lparr>write_fault := (\<lambda>p. WriteFails 5)\<rparr>"
      and l = example_lib and fp = "''sha256:print(1''" and n = 5
      and w = "disk ''print(0)'' ''print(1''"]
    save_failed_update_failure_effects [where env = quiet_io and l = example_lib
      and x = "WriteFails 0"
      and m = "\<lparr>current_checksum = Some ''sha256:print(0)'', failed_checksum = PyNone\<rparr>"
      and ?w0.0 = "disk ''print(0)'' ''print(1''"]
  by (simp add: run_defs json_defs)

section \<open>What the loop remembers\<close>

lemma update_detected_early_mem:
  "update_detected l env m w nc = (out, m', w') \<Longrightarrow> m' = m"
  by (auto simp: update_detected_def Let_def split: if_splits prod.splits bool.splits
      dest: apply_update_mem)

lemma tick_keeps_checksum_unless_no_change:
  assumes "tick l env m w = (out, m', w')" and "out \<noteq> NoChange"
  shows "m' = m"
  using assms
  by (auto simp: tick_def after_pull_def unexpected_error_def
      split: sum.splits pull_error.splits if_splits prod.splits option.splits bool.splits
      dest: update_detected_early_mem)

lemma files_save_other:
  "p \<noteq> FAILED_UPDATE_FILE \<Longrightarrow> files (save_failed_update l env w fp) p = files w p"
  by (simp add: save_failed_update_def write_file_def split: wfault.splits)

lemma apply_update_not_rejected: "apply_update env m w \<noteq> (Rejected, m', w')"
  using apply_update_outcomes [of env m w] by auto

lemma is_valid_python_files:
  "is_valid_python l env w p = (b, w') \<Longrightarrow> files w' = files w"
  using files_is_valid_python [of l env w p] by simp

lemma is_valid_python_False:
  "is_valid_python l env w p = (False, w') \<Longrightarrow> files w p = Some c \<Longrightarrow> \<not> read_fault env p \<Longrightarrow>
     ast_parse l c \<noteq> ParseOk"
  by (auto simp: is_valid_python_def open_read_def split: parse_result.splits)

lemma update_detected_rejected_inv:
  assumes "update_detected l env m w nc = (Rejected, m', w')"
    and "files w new_file = Some c" "\<not> read_fault env new_file"
  shows "failed_checksum m \<noteq> PyStr nc \<and> ast_parse l c \<noteq> ParseOk \<and> m' = m
    \<and> files w' new_file = Some c"
proof -
  let ?w2 = "send_email env ''Client Update Started''
      ''The client is updating to a new version.'' (log INFO ''Update detected!'' w)"
  have nf: "failed_checksum m \<noteq> PyStr nc"
    using assms(1) by (auto simp: update_detected_def)
  obtain b w3 where v: "is_valid_python l env ?w2 new_file = (b, w3)"
    by (cases "is_valid_python l env ?w2 new_file") auto
  have f3: "files w3 = files w"
    using is_valid_python_files [OF v] by simp
  have nb: "\<not> b"
    using assms(1) nf v
    by (auto simp: update_detected_def Let_def apply_update_not_rejected)
  then have r: "m' = m" "w' = sleep CHECK_INTERVAL (save_failed_update l env
      (send_email env ''Client Update Failed''
         ''New version has invalid syntax. Update aborted.''
         (log ERROR ''New version has invalid syntax. Aborting update.'' w3)) nc)"
    using assms(1) nf v by (auto simp: update_detected_def Let_def)
  have "files ?w2 new_file = Some c" using assms(2) by simp
  then have "ast_parse l c \<noteq> ParseOk"
    using v nb assms(3) is_valid_python_False [of l env ?w2 new_file w3 c] by simp
  moreover have "files w' new_file = Some c"
    using r(2) f3 assms(2) paths_distinct by (simp add: files_save_other)
  ultimately show ?thesis using nf r(1) by simp
qed

lemma update_detected_rejects:
  assumes "failed_checksum m \<noteq> PyStr nc" "files w new_file = Some c"
    "\<not> read_fault env new_file" "ast_parse l c \<noteq> ParseOk"
  shows "fst (update_detected l env m w nc) = Rejected"
  using assms
  by (simp add: update_detected_def Let_def is_valid_python_def open_read_def
      split: parse_result.splits)

lemma tick_rejected_inv:
  assumes "tick l env m w = (Rejected, m', w')"
  shows "\<exists>c. files w' new_file = Some c \<and> \<not> read_fault env new_file
      \<and> sha256_hexdigest l c \<noteq> [] \<and> truthy (current_checksum m)
      \<and> current_checksum m \<noteq> Some (sha256_hexdigest l c)
      \<and> failed_checksum m \<noteq> PyStr (sha256_hexdigest l c)
      \<and> ast_parse l c \<noteq> ParseOk \<and> m' = m"
proof -
  obtain w1 where p: "remote_pull env w = Inr w1"
    and a: "after_pull l env m w1 = (Rejected, m', w')"
    using assms
    by (auto simp: tick_def unexpected_error_def split: sum.splits pull_error.splits)
  obtain nc w2 where g: "get_checksum l env w1 new_file = (Some nc, w2)"
    and tr: "nc \<noteq> []" "truthy (current_checksum m)" "Some nc \<noteq> current_checksum m"
    and u: "update_detected l env m w2 nc = (Rejected, m', w')"
    using a
    by (auto simp: after_pull_def split: if_splits prod.splits option.splits bool.splits)
  from get_checksum_Some [OF g] obtain c where
    c: "files w1 new_file = Some c" "\<not> read_fault env new_file"
      "nc = sha256_hexdigest l c" "w2 = w1"
    by blast
  from update_detected_rejected_inv [OF u] c
  have "failed_checksum m \<noteq> PyStr nc \<and> ast_parse l c \<noteq> ParseOk \<and> m' = m
    \<and> files w' new_file = Some c"
    by simp
  then show ?thesis using c tr by auto
qed

lemma tick_rejected_again:
  assumes "tick l env m w = (Rejected, m', w')"
    and "remote_pull env2 w' = Inr w2"
    and "files w2 new_file = files w' new_file"
    and "\<not> read_fault env2 new_file"
  shows "fst (tick l env2 m' w') = Rejected"
proof -
  from tick_rejected_inv [OF assms(1)] obtain c where
    c: "files w' new_file = Some c"
    and g: "sha256_hexdigest l c \<noteq> []" "truthy (current_checksum m)"
      "current_checksum m \<noteq> Some (sha256_hexdigest l c)"
    and f: "failed_checksum m \<noteq> PyStr (sha256_hexdigest l c)"
    and v: "ast_parse l c \<noteq> ParseOk" and m: "m' = m"
    by blast
  have c2: "files w2 new_file = Some c" using assms(3) c by simp
  have "after_pull l env2 m w2 = update_detected l env2 m w2 (sha256_hexdigest l c)"
    using c2 assms(4) g
    by (auto simp: after_pull_def path_exists_def get_checksum_readable)
  then show ?thesis
    using tick_after_pull [OF assms(2), of l m] m
      update_detected_rejects [OF f c2 assms(4) v]
    by simp
qed

text \<open>
  Claim C1, evaluated.  The process starts with no ledger and a candidate that does
  not parse.  The first iteration rejects it and the ledger file then holds its
  fingerprint, but \<open>failed_checksum\<close>, read once before the loop (line 144), is
  still \<open>None\<close>; the second iteration, on the same candidate, announces the
  update, runs the validator and reports the failure a second time.
\<close>

theorem rejected_candidate_is_validated_again:
  "(case startup example_lib quiet_io (disk ''print(0)'' ''print(1'') of
      (m0, w0) \<Rightarrow>
        (case tick example_lib quiet_io m0 w0 of
           (out1, m1, w1) \<Rightarrow>
             (case tick example_lib quiet_io m1 w1 of
                (out2, m2, w2) \<Rightarrow>
                  m0 = \<lparr>current_checksum = Some ''sha256:print(0)'', failed_checksum = PyNone\<rparr>
                  \<and> out1 = Rejected
                  \<and> fst (load_failed_update example_lib quiet_io w1) = PyStr ''sha256:print(1''
                  \<and> failed_checksum m1 = PyNone
                  \<and> files w1 new_file = Some ''print(1''
                  \<and> out2 = Rejected
                  \<and> trace w2 = trace w1 @
                      [Log INFO ''Update detected!'',
                       SmtpSend ''Client Update Started''
                         ''The client is updating to a new version.'',
                       Log INFO ''Email sent: Client Update Started'',
                       Log ERROR ''Invalid Python syntax in repo/self_upgrading_client.py'',
                       Log ERROR ''New version has invalid syntax. Aborting update.'',
                       SmtpSend ''Client Update Failed''
                         ''New version has invalid syntax. Update aborted.'',
                       Log INFO ''Email sent: Client Update Failed'',
                       Log INFO ''Marked update sha256:print(1 as failed'',
                       Sleep 60]
                  \<and> fst (main_loop example_lib [quiet_io, quiet_io] m0 w0)
                      = [Rejected, Rejected])))"
  by (simp add: startup_def run_defs json_defs)

text \<open>
  Claim C2, evaluated.  The running file has been replaced since its fingerprint was
  taken.  An iteration that rejects the candidate and one that skips a candidate
  known to have failed both leave \<open>current_checksum\<close> at the old value (the
  \<open>continue\<close> of lines 160 and 170 comes before line 182), while an iteration
  ending in \<open>NoChange\<close> takes the fingerprint of the new running file.
\<close>

theorem rejected_and_skipped_ticks_keep_stale_checksum:
  "(case tick example_lib quiet_io
           \<lparr>current_checksum = Some ''sha256:print(0)'', failed_checksum = PyNone\<rparr>
           (disk ''print(2)'' ''print(1'') of
      (out, m', w') \<Rightarrow>
        out = Rejected \<and> current_checksum m' = Some ''sha256:print(0)''
        \<and> fst (get_checksum example_lib quiet_io w' current_file) = Some ''sha256:print(2)'')
   \<and> (case tick example_lib quiet_io
           \<lparr>current_checksum = Some ''sha256:print(0)'',
              failed_checksum = PyStr ''sha256:print(1''\<rparr>
           (disk ''print(2)'' ''print(1'') of
      (out, m', w') \<Rightarrow>
        out = Skipped \<and> current_checksum m' = Some ''sha256:print(0)''
        \<and> fst (get_checksum example_lib quiet_io w' current_file) = Some ''sha256:print(2)'')
   \<and> (case tick example_lib quiet_io
           \<lparr>current_checksum = Some ''sha256:print(0)'', failed_checksum = PyNone\<rparr>
           (disk ''print(2)'' ''print(0)'') of
      (out, m', w') \<Rightarrow>
        out = NoChange \<and> current_checksum m' = Some ''sha256:print(2)'')"
  by (simp add: run_defs json_defs)

end
